theory Spec2Isabelle
  imports Main
begin

section \<open>The checkout script \<^verbatim>\<open>refactor.py\<close>\<close>

text \<open>
  The script wires a coordinator (\<^verbatim>\<open>CheckoutService\<close>) to two injected collaborators, a
  payment processor and a notifier, and runs it on two sample orders. Python passes the
  order by reference, so every method that receives it may write its attributes: the
  model passes the order's state in and hands the state after the call back. What a
  method prints through \<^verbatim>\<open>LOGGER\<close> is returned as the list of records it emitted, in
  order; the time stamp that the format string adds is not part of the model.
  Collaborators are taken to return (no exception, no divergence) and to be functions of
  the order they receive.
\<close>

subsection \<open>Order\<close>

record Order =
  customer_name :: string
  total_price :: int
  status :: string

text \<open>
  \<^verbatim>\<open>Order.__init__\<close>: stores both arguments as given (nothing is validated, so the
  price may be negative) and sets the status. The script builds its orders with integer
  prices; Python's integers are unbounded.
\<close>

definition Order_init :: "string \<Rightarrow> int \<Rightarrow> Order" where
  "Order_init cn tp = \<lparr>customer_name = cn, total_price = tp, status = ''pending''\<rparr>"

subsection \<open>Logging\<close>

datatype levelname = INFO | ERROR

text \<open>A record of the logger named \<^verbatim>\<open>Checkout\<close>: level, logger name, message.\<close>

datatype log_record = LogRecord levelname string string

definition LOGGER_info :: "string \<Rightarrow> log_record" where
  "LOGGER_info m = LogRecord INFO ''Checkout'' m"

definition LOGGER_error :: "string \<Rightarrow> log_record" where
  "LOGGER_error m = LogRecord ERROR ''Checkout'' m"

text \<open>
  Decimal rendering of an integer, as an f-string renders \<^verbatim>\<open>{order.total_price}\<close>
  (without the interpreter's configurable limit on the number of digits).
\<close>

fun str_nat :: "nat \<Rightarrow> string" where
  "str_nat n =
     (if n < 10 then [''0123456789'' ! n]
      else str_nat (n div 10) @ [''0123456789'' ! (n mod 10)])"

definition str_int :: "int \<Rightarrow> string" where
  "str_int i = (if i < 0 then CHR ''-'' # str_nat (nat (- i)) else str_nat (nat i))"

subsection \<open>The two interfaces and their implementations\<close>

text \<open>
  \<^verbatim>\<open>IPaymentProcessor.process(order) -> bool\<close>: the returned flag, the order after the
  call, the records logged. \<^verbatim>\<open>INotificationService.send(order)\<close>: the order after the
  call, the records logged.
\<close>

type_synonym IPaymentProcessor = "Order \<Rightarrow> bool \<times> Order \<times> log_record list"

type_synonym INotificationService = "Order \<Rightarrow> Order \<times> log_record list"

definition CreditCardProcessor_process :: IPaymentProcessor where
  "CreditCardProcessor_process order =
     (True, order,
      [LOGGER_info (''Payment: Memproses Kartu Kredit untuk '' @ customer_name order @ ''.'')])"

definition QrisProcessor_process :: IPaymentProcessor where
  "QrisProcessor_process order =
     (True, order,
      [LOGGER_info (''Payment: Memproses QRIS untuk '' @ customer_name order @ ''.'')])"

definition EmailNotifier_send :: INotificationService where
  "EmailNotifier_send order =
     (order,
      [LOGGER_info (''Notif: Mengirim email konfirmasi ke '' @ customer_name order @ ''.'')])"

subsection \<open>CheckoutService\<close>

record CheckoutService =
  payment_processor :: IPaymentProcessor
  notifier :: INotificationService

text \<open>
  What one call of \<^verbatim>\<open>run_checkout\<close> does, in program order: a record logged, the call
  of \<^verbatim>\<open>process\<close> (with the order as it was passed), the coordinator's own assignment to
  \<^verbatim>\<open>order.status\<close>, the call of \<^verbatim>\<open>send\<close> (with the order as it was passed).
  The flag that \<^verbatim>\<open>process\<close> returns is a \<^verbatim>\<open>bool\<close>, as the interface declares it.
\<close>

datatype event =
    Logged log_record
  | ProcessCalled Order
  | StatusAssigned string
  | SendCalled Order

record checkout_result =
  returned :: bool
  order_after :: Order
  trace :: "event list"

definition run_checkout :: "CheckoutService \<Rightarrow> Order \<Rightarrow> checkout_result" where
  "run_checkout self order =
     (let t0 = [Logged (LOGGER_info (''Memulai checkout untuk '' @ customer_name order
                   @ ''. Total: '' @ str_int (total_price order)))];
          (payment_success, order1, plog) = payment_processor self order;
          t1 = t0 @ [ProcessCalled order] @ map Logged plog
      in if payment_success then
           (let order2 = order1\<lparr>status := ''paid''\<rparr>;
                (order3, nlog) = notifier self order2
            in \<lparr>returned = True, order_after = order3,
                trace = t1 @ [StatusAssigned ''paid'', SendCalled order2] @ map Logged nlog
                  @ [Logged (LOGGER_info ''Checkout Sukses. Status pesanan: PAID.'')]\<rparr>)
         else
           \<lparr>returned = False, order_after = order1,
            trace = t1 @ [Logged (LOGGER_error ''Pembayaran gagal. Transaksi dibatalkan.'')]\<rparr>)"

subsection \<open>The main program\<close>

definition andi_order :: Order where
  "andi_order = Order_init ''Andi'' 500000"

definition checkout_cc :: CheckoutService where
  "checkout_cc = \<lparr>payment_processor = CreditCardProcessor_process, notifier = EmailNotifier_send\<rparr>"

definition budi_order :: Order where
  "budi_order = Order_init ''Budi'' 100000"

definition checkout_qris :: CheckoutService where
  "checkout_qris = \<lparr>payment_processor = QrisProcessor_process, notifier = EmailNotifier_send\<rparr>"

subsection \<open>Reading a trace\<close>

text \<open>The orders \<^verbatim>\<open>send\<close> was called with, and the values the coordinator assigned to the status.\<close>

fun sent_orders :: "event list \<Rightarrow> Order list" where
  "sent_orders [] = []"
| "sent_orders (SendCalled x # es) = x # sent_orders es"
| "sent_orders (_ # es) = sent_orders es"

fun status_writes :: "event list \<Rightarrow> string list" where
  "status_writes [] = []"
| "status_writes (StatusAssigned s # es) = s # status_writes es"
| "status_writes (_ # es) = status_writes es"

text \<open>The records that reached the logger, in order.\<close>

fun logged :: "event list \<Rightarrow> log_record list" where
  "logged [] = []"
| "logged (Logged r # es) = r # logged es"
| "logged (_ # es) = logged es"

text \<open>The frame conditions a collaborator may or may not honour.\<close>

definition process_keeps_status :: "IPaymentProcessor \<Rightarrow> bool" where
  "process_keeps_status p = (\<forall>x. status (fst (snd (p x))) = status x)"

definition send_keeps_status :: "INotificationService \<Rightarrow> bool" where
  "send_keeps_status n = (\<forall>x. status (fst (n x)) = status x)"

subsection \<open>Reachable orders\<close>

text \<open>
  The orders the program can produce: one just constructed, and what a reachable order
  has become after \<^verbatim>\<open>process\<close>, \<^verbatim>\<open>send\<close> or \<^verbatim>\<open>run_checkout\<close>, for collaborators that
  honour the frame condition. The script's own collaborators do (lemmas
  \<open>CreditCardProcessor_keeps_status\<close>, \<open>QrisProcessor_keeps_status\<close> and
  \<open>EmailNotifier_keeps_status\<close> below), so its two checkouts are instances.
\<close>

inductive reachable :: "Order \<Rightarrow> bool" where
  constructed: "reachable (Order_init cn tp)"
| processed: "reachable x \<Longrightarrow> process_keeps_status p \<Longrightarrow> reachable (fst (snd (p x)))"
| notified: "reachable x \<Longrightarrow> send_keeps_status n \<Longrightarrow> reachable (fst (n x))"
| checked_out: "reachable x \<Longrightarrow> process_keeps_status (payment_processor self) \<Longrightarrow>
     send_keeps_status (notifier self) \<Longrightarrow> reachable (order_after (run_checkout self x))"

section \<open>Properties\<close>

lemma sent_orders_append: "sent_orders (xs @ ys) = sent_orders xs @ sent_orders ys"
  by (induction xs rule: sent_orders.induct) simp_all

lemma sent_orders_Logged: "sent_orders (map Logged ls) = []"
  by (induction ls) simp_all

lemma status_writes_append: "status_writes (xs @ ys) = status_writes xs @ status_writes ys"
  by (induction xs rule: status_writes.induct) simp_all

lemma status_writes_Logged: "status_writes (map Logged ls) = []"
  by (induction ls) simp_all

lemma logged_append: "logged (xs @ ys) = logged xs @ logged ys"
  by (induction xs rule: logged.induct) simp_all

lemma logged_Logged: "logged (map Logged ls) = ls"
  by (induction ls) simp_all

text \<open>
  C8. For every order, \<^verbatim>\<open>process\<close> of \<^verbatim>\<open>CreditCardProcessor\<close> and of
  \<^verbatim>\<open>QrisProcessor\<close> leaves the status of the order as it was (indeed the whole order).
\<close>

theorem processors_leave_status:
  "status (fst (snd (CreditCardProcessor_process order))) = status order
   \<and> status (fst (snd (QrisProcessor_process order))) = status order
   \<and> fst (snd (CreditCardProcessor_process order)) = order
   \<and> fst (snd (QrisProcessor_process order)) = order"
  by (simp add: CreditCardProcessor_process_def QrisProcessor_process_def)

text \<open>
  C9. For every order, \<^verbatim>\<open>process\<close> of \<^verbatim>\<open>CreditCardProcessor\<close> returns true and
  \<^verbatim>\<open>process\<close> of \<^verbatim>\<open>QrisProcessor\<close> returns true: neither ever reports failure.
\<close>

theorem processors_always_succeed:
  "fst (CreditCardProcessor_process order) = True \<and> fst (QrisProcessor_process order) = True"
  by (simp add: CreditCardProcessor_process_def QrisProcessor_process_def)

subsection \<open>What one call of \<^verbatim>\<open>run_checkout\<close> yields\<close>

lemma returned_run_checkout:
  "returned (run_checkout self order) = fst (payment_processor self order)"
  by (simp add: run_checkout_def Let_def case_prod_beta)

lemma order_after_run_checkout:
  "order_after (run_checkout self order) =
     (if fst (payment_processor self order)
      then fst (notifier self (fst (snd (payment_processor self order))\<lparr>status := ''paid''\<rparr>))
      else fst (snd (payment_processor self order)))"
  by (simp add: run_checkout_def Let_def case_prod_beta)

lemma sent_orders_run_checkout:
  "sent_orders (trace (run_checkout self order)) =
     (if fst (payment_processor self order)
      then [fst (snd (payment_processor self order))\<lparr>status := ''paid''\<rparr>]
      else [])"
  by (simp add: run_checkout_def Let_def case_prod_beta sent_orders_append sent_orders_Logged)

lemma status_writes_run_checkout:
  "status_writes (trace (run_checkout self order)) =
     (if fst (payment_processor self order) then [''paid''] else [])"
  by (simp add: run_checkout_def Let_def case_prod_beta status_writes_append
      status_writes_Logged)

lemma logged_run_checkout:
  "logged (trace (run_checkout self order)) =
     LOGGER_info (''Memulai checkout untuk '' @ customer_name order
        @ ''. Total: '' @ str_int (total_price order))
     # snd (snd (payment_processor self order))
     @ (if fst (payment_processor self order)
        then snd (notifier self (fst (snd (payment_processor self order))\<lparr>status := ''paid''\<rparr>))
             @ [LOGGER_info ''Checkout Sukses. Status pesanan: PAID.'']
        else [LOGGER_error ''Pembayaran gagal. Transaksi dibatalkan.''])"
  by (simp add: run_checkout_def Let_def case_prod_beta logged_append logged_Logged)

text \<open>
  The notifier enters a run only through its value at the order that \<^verbatim>\<open>process\<close> left,
  with the status set to \<^verbatim>\<open>paid\<close>; when the payment fails it does not enter at all.
\<close>

lemma run_checkout_failed_any_notifier:
  "\<not> fst (payment_processor self order) \<Longrightarrow>
     run_checkout (self\<lparr>notifier := n'\<rparr>) order = run_checkout self order"
  by (simp add: run_checkout_def Let_def case_prod_beta)

lemma run_checkout_notifier_agree:
  assumes "\<forall>x. status x = ''paid'' \<longrightarrow> n' x = notifier self x"
  shows "run_checkout (self\<lparr>notifier := n'\<rparr>) order = run_checkout self order"
proof -
  have "n' (fst (snd (payment_processor self order))\<lparr>status := ''paid''\<rparr>)
      = notifier self (fst (snd (payment_processor self order))\<lparr>status := ''paid''\<rparr>)"
    using assms by simp
  then show ?thesis
    by (simp add: run_checkout_def Let_def case_prod_beta)
qed

lemma status_after_run_checkout:
  "process_keeps_status (payment_processor self) \<Longrightarrow> send_keeps_status (notifier self) \<Longrightarrow>
     status (order_after (run_checkout self x)) =
       (if fst (payment_processor self x) then ''paid'' else status x)"
  by (simp add: order_after_run_checkout process_keeps_status_def send_keeps_status_def)

subsection \<open>The script's collaborators honour the frame condition\<close>

lemma EmailNotifier_keeps_status: "send_keeps_status EmailNotifier_send"
  by (simp add: send_keeps_status_def EmailNotifier_send_def)

lemma CreditCardProcessor_keeps_status: "process_keeps_status CreditCardProcessor_process"
  by (simp add: process_keeps_status_def CreditCardProcessor_process_def)

lemma QrisProcessor_keeps_status: "process_keeps_status QrisProcessor_process"
  by (simp add: process_keeps_status_def QrisProcessor_process_def)

lemma reachable_status: "reachable x \<Longrightarrow> status x = ''pending'' \<or> status x = ''paid''"
proof (induction rule: reachable.induct)
  case (constructed cn tp)
  show ?case by (simp add: Order_init_def)
next
  case (processed x p)
  then show ?case by (simp add: process_keeps_status_def)
next
  case (notified x n)
  then show ?case by (simp add: send_keeps_status_def)
next
  case (checked_out x self)
  then show ?case by (simp add: status_after_run_checkout)
qed

subsection \<open>Payment succeeds\<close>

text \<open>
  C1, as stated, fails: \<^verbatim>\<open>send\<close> receives the order by reference after the coordinator
  has assigned the status, so a notifier that writes the status decides what it is after
  the call. With \<^verbatim>\<open>CreditCardProcessor\<close>, whose \<^verbatim>\<open>process\<close> returns true, and a notifier
  that copies the customer's name into the status, \<^verbatim>\<open>run_checkout\<close> returns true and the
  status of Andi's order is \<^verbatim>\<open>Andi\<close> after the call.
\<close>

theorem status_after_send_counterexample:
  "fst (payment_processor
      \<lparr>payment_processor = CreditCardProcessor_process,
       notifier = (\<lambda>x. (x\<lparr>status := customer_name x\<rparr>, []))\<rparr> andi_order)
   \<and> returned (run_checkout
      \<lparr>payment_processor = CreditCardProcessor_process,
       notifier = (\<lambda>x. (x\<lparr>status := customer_name x\<rparr>, []))\<rparr> andi_order)
   \<and> status (order_after (run_checkout
      \<lparr>payment_processor = CreditCardProcessor_process,
       notifier = (\<lambda>x. (x\<lparr>status := customer_name x\<rparr>, []))\<rparr> andi_order)) = ''Andi''
   \<and> status (order_after (run_checkout
      \<lparr>payment_processor = CreditCardProcessor_process,
       notifier = (\<lambda>x. (x\<lparr>status := customer_name x\<rparr>, []))\<rparr> andi_order)) \<noteq> ''paid''"
  by (simp add: returned_run_checkout order_after_run_checkout CreditCardProcessor_process_def
      andi_order_def Order_init_def)

text \<open>
  C1, amended. For every order, every injected payment processor whose
  \<^verbatim>\<open>process(order)\<close> returns true and every injected notifier, \<^verbatim>\<open>run_checkout(order)\<close>
  returns true; and if \<^verbatim>\<open>send\<close> of the notifier leaves the status of the order it
  receives as it is, the status of the order is \<^verbatim>\<open>paid\<close> after the call.
\<close>

theorem run_checkout_success:
  "fst (payment_processor self order) \<Longrightarrow>
     returned (run_checkout self order) = True
     \<and> (send_keeps_status (notifier self) \<longrightarrow>
          status (order_after (run_checkout self order)) = ''paid'')"
  by (simp add: returned_run_checkout order_after_run_checkout send_keeps_status_def)

theorem run_checkout_success_witness:
  "fst (payment_processor checkout_cc andi_order)
   \<and> send_keeps_status (notifier checkout_cc)
   \<and> returned (run_checkout checkout_cc andi_order) = True
   \<and> status (order_after (run_checkout checkout_cc andi_order)) = ''paid''"
proof -
  have ok: "fst (payment_processor checkout_cc andi_order)"
    by (simp add: checkout_cc_def CreditCardProcessor_process_def)
  have frame: "send_keeps_status (notifier checkout_cc)"
    by (simp add: checkout_cc_def EmailNotifier_keeps_status)
  from run_checkout_success [OF ok] ok frame show ?thesis
    by simp
qed

subsection \<open>Payment fails\<close>

text \<open>
  C2. For every order whose status is \<^verbatim>\<open>pending\<close> before the call and every injected
  payment processor whose \<^verbatim>\<open>process(order)\<close> returns false and does not itself mutate
  the order, \<^verbatim>\<open>run_checkout(order)\<close> returns false and the status is still
  \<^verbatim>\<open>pending\<close> after the call; the order is as it was before the call.
\<close>

theorem run_checkout_failure:
  assumes "status order = ''pending''"
    and "\<not> fst (payment_processor self order)"
    and "fst (snd (payment_processor self order)) = order"
  shows "returned (run_checkout self order) = False
     \<and> status (order_after (run_checkout self order)) = ''pending''
     \<and> order_after (run_checkout self order) = order"
  using assms by (simp add: returned_run_checkout order_after_run_checkout)

theorem run_checkout_failure_witness:
  "status budi_order = ''pending''
   \<and> \<not> fst ((\<lambda>x. (False, x, [])) budi_order)
   \<and> returned (run_checkout \<lparr>payment_processor = (\<lambda>x. (False, x, [])),
         notifier = EmailNotifier_send\<rparr> budi_order) = False
   \<and> status (order_after (run_checkout \<lparr>payment_processor = (\<lambda>x. (False, x, [])),
         notifier = EmailNotifier_send\<rparr> budi_order)) = ''pending''"
  using run_checkout_failure [of budi_order
      "\<lparr>payment_processor = (\<lambda>x. (False, x, [])), notifier = EmailNotifier_send\<rparr>"]
  by (simp add: budi_order_def Order_init_def)

subsection \<open>Calls of the notifier\<close>

text \<open>
  C3. In every call of \<^verbatim>\<open>run_checkout(order)\<close>, \<^verbatim>\<open>send\<close> of the injected notifier is
  invoked exactly once if \<^verbatim>\<open>process(order)\<close> returns true, and not at all if it returns
  false. If it returns true, the order after the call is what one application of
  \<^verbatim>\<open>send\<close> made of the order, and the records logged are those of the coordinator and of
  \<^verbatim>\<open>process\<close> with those of that one application between them. If it returns false, the
  order after the call is the order as \<^verbatim>\<open>process\<close> left it, nothing of the notifier is
  logged, and the whole result is the same whichever notifier is injected.
\<close>

theorem send_called_once_or_never:
  "(fst (payment_processor self order) \<longrightarrow>
      (let paid_order = fst (snd (payment_processor self order))\<lparr>status := ''paid''\<rparr> in
       order_after (run_checkout self order) = fst (notifier self paid_order)
       \<and> logged (trace (run_checkout self order)) =
           LOGGER_info (''Memulai checkout untuk '' @ customer_name order
              @ ''. Total: '' @ str_int (total_price order))
           # snd (snd (payment_processor self order))
           @ snd (notifier self paid_order)
           @ [LOGGER_info ''Checkout Sukses. Status pesanan: PAID.'']
       \<and> sent_orders (trace (run_checkout self order)) = [paid_order]))
   \<and> (\<not> fst (payment_processor self order) \<longrightarrow>
       order_after (run_checkout self order) = fst (snd (payment_processor self order))
       \<and> logged (trace (run_checkout self order)) =
           LOGGER_info (''Memulai checkout untuk '' @ customer_name order
              @ ''. Total: '' @ str_int (total_price order))
           # snd (snd (payment_processor self order))
           @ [LOGGER_error ''Pembayaran gagal. Transaksi dibatalkan.'']
       \<and> sent_orders (trace (run_checkout self order)) = []
       \<and> (\<forall>n'. run_checkout (self\<lparr>notifier := n'\<rparr>) order = run_checkout self order))
   \<and> length (sent_orders (trace (run_checkout self order))) =
       (if fst (payment_processor self order) then 1 else 0)"
  by (simp add: Let_def order_after_run_checkout logged_run_checkout sent_orders_run_checkout
      run_checkout_failed_any_notifier)

text \<open>
  At a notifier that leaves a tally (it adds one to the price and logs \<^verbatim>\<open>sent\<close> each
  time it is called): one mark when the payment succeeds, none when it fails.
\<close>

theorem send_called_once_or_never_witness:
  "fst (CreditCardProcessor_process andi_order)
   \<and> order_after (run_checkout
        \<lparr>payment_processor = CreditCardProcessor_process,
         notifier = (\<lambda>x. (x\<lparr>total_price := total_price x + 1\<rparr>, [LOGGER_info ''sent'']))\<rparr>
        andi_order)
      = \<lparr>customer_name = ''Andi'', total_price = 500001, status = ''paid''\<rparr>
   \<and> logged (trace (run_checkout
        \<lparr>payment_processor = CreditCardProcessor_process,
         notifier = (\<lambda>x. (x\<lparr>total_price := total_price x + 1\<rparr>, [LOGGER_info ''sent'']))\<rparr>
        andi_order))
      = [LOGGER_info ''Memulai checkout untuk Andi. Total: 500000'',
         LOGGER_info ''Payment: Memproses Kartu Kredit untuk Andi.'',
         LOGGER_info ''sent'',
         LOGGER_info ''Checkout Sukses. Status pesanan: PAID.'']
   \<and> \<not> fst ((\<lambda>x. (False, x, [])) andi_order)
   \<and> order_after (run_checkout
        \<lparr>payment_processor = (\<lambda>x. (False, x, [])),
         notifier = (\<lambda>x. (x\<lparr>total_price := total_price x + 1\<rparr>, [LOGGER_info ''sent'']))\<rparr>
        andi_order)
      = \<lparr>customer_name = ''Andi'', total_price = 500000, status = ''pending''\<rparr>
   \<and> logged (trace (run_checkout
        \<lparr>payment_processor = (\<lambda>x. (False, x, [])),
         notifier = (\<lambda>x. (x\<lparr>total_price := total_price x + 1\<rparr>, [LOGGER_info ''sent'']))\<rparr>
        andi_order))
      = [LOGGER_info ''Memulai checkout untuk Andi. Total: 500000'',
         LOGGER_error ''Pembayaran gagal. Transaksi dibatalkan.'']"
proof -
  let ?tally = "\<lambda>x. (x\<lparr>total_price := total_price x + 1\<rparr>, [LOGGER_info ''sent''])"
  let ?S = "\<lparr>payment_processor = CreditCardProcessor_process, notifier = ?tally\<rparr>"
  let ?F = "\<lparr>payment_processor = (\<lambda>x. (False, x, [])), notifier = ?tally\<rparr>"
  have str: "str_int 500000 = ''500000''"
    by (simp add: str_int_def)
  have ok: "fst (payment_processor ?S andi_order)"
    by (simp add: CreditCardProcessor_process_def)
  have nok: "\<not> fst (payment_processor ?F andi_order)"
    by simp
  note once = send_called_once_or_never [of ?S andi_order, THEN conjunct1, rule_format, OF ok]
  note never = send_called_once_or_never [of ?F andi_order, THEN conjunct2, THEN conjunct1,
    rule_format, OF nok]
  from once have "order_after (run_checkout ?S andi_order)
        = \<lparr>customer_name = ''Andi'', total_price = 500001, status = ''paid''\<rparr>
      \<and> logged (trace (run_checkout ?S andi_order))
        = [LOGGER_info ''Memulai checkout untuk Andi. Total: 500000'',
           LOGGER_info ''Payment: Memproses Kartu Kredit untuk Andi.'',
           LOGGER_info ''sent'',
           LOGGER_info ''Checkout Sukses. Status pesanan: PAID.'']"
    by (simp add: Let_def CreditCardProcessor_process_def andi_order_def Order_init_def str)
  moreover from never [THEN conjunct1] never [THEN conjunct2, THEN conjunct1]
  have "order_after (run_checkout ?F andi_order)
        = \<lparr>customer_name = ''Andi'', total_price = 500000, status = ''pending''\<rparr>
      \<and> logged (trace (run_checkout ?F andi_order))
        = [LOGGER_info ''Memulai checkout untuk Andi. Total: 500000'',
           LOGGER_error ''Pembayaran gagal. Transaksi dibatalkan.'']"
    by (simp add: andi_order_def Order_init_def str)
  ultimately show ?thesis
    by (simp add: CreditCardProcessor_process_def)
qed

text \<open>
  C4. Whenever \<^verbatim>\<open>run_checkout\<close> invokes \<^verbatim>\<open>send(order)\<close>, the order passed has status
  \<^verbatim>\<open>paid\<close> at the moment of the call: \<^verbatim>\<open>send\<close> is never invoked on an order whose
  status is not \<^verbatim>\<open>paid\<close>. When the payment succeeds, the order after the call and the
  records of the notifier are those of \<^verbatim>\<open>send\<close> applied to an order of status
  \<^verbatim>\<open>paid\<close>; and what a notifier does on orders of any other status has no bearing on
  the run: two notifiers that agree on the orders of status \<^verbatim>\<open>paid\<close> give the same
  return value, the same order and the same trace.
\<close>

theorem send_only_on_paid_order:
  "(\<forall>x \<in> set (sent_orders (trace (run_checkout self order))). status x = ''paid'')
   \<and> (fst (payment_processor self order) \<longrightarrow>
        (let paid_order = fst (snd (payment_processor self order))\<lparr>status := ''paid''\<rparr> in
         status paid_order = ''paid''
         \<and> sent_orders (trace (run_checkout self order)) = [paid_order]
         \<and> order_after (run_checkout self order) = fst (notifier self paid_order)
         \<and> set (snd (notifier self paid_order)) \<subseteq> set (logged (trace (run_checkout self order)))))
   \<and> ((\<forall>x. status x = ''paid'' \<longrightarrow> n' x = notifier self x) \<longrightarrow>
        run_checkout (self\<lparr>notifier := n'\<rparr>) order = run_checkout self order)"
proof -
  have markers: "\<forall>x \<in> set (sent_orders (trace (run_checkout self order))). status x = ''paid''"
    by (simp add: sent_orders_run_checkout)
  have seen: "fst (payment_processor self order) \<longrightarrow>
        (let paid_order = fst (snd (payment_processor self order))\<lparr>status := ''paid''\<rparr> in
         status paid_order = ''paid''
         \<and> sent_orders (trace (run_checkout self order)) = [paid_order]
         \<and> order_after (run_checkout self order) = fst (notifier self paid_order)
         \<and> set (snd (notifier self paid_order)) \<subseteq> set (logged (trace (run_checkout self order))))"
    by (auto simp add: Let_def sent_orders_run_checkout order_after_run_checkout
        logged_run_checkout)
  from markers seen run_checkout_notifier_agree [of n' self order] show ?thesis
    by blast
qed

text \<open>
  At a notifier that logs the status it sees: it logs \<^verbatim>\<open>saw paid\<close>, and the run is the
  run of the notifier that logs \<^verbatim>\<open>saw paid\<close> whatever it is given.
\<close>

theorem send_only_on_paid_order_witness:
  "run_checkout
      \<lparr>payment_processor = CreditCardProcessor_process,
       notifier = (\<lambda>x. (x, [LOGGER_info ''saw paid'']))\<rparr> andi_order
    = run_checkout
      \<lparr>payment_processor = CreditCardProcessor_process,
       notifier = (\<lambda>x. (x, [LOGGER_info (''saw '' @ status x)]))\<rparr> andi_order
   \<and> logged (trace (run_checkout
      \<lparr>payment_processor = CreditCardProcessor_process,
       notifier = (\<lambda>x. (x, [LOGGER_info (''saw '' @ status x)]))\<rparr> andi_order))
    = [LOGGER_info ''Memulai checkout untuk Andi. Total: 500000'',
       LOGGER_info ''Payment: Memproses Kartu Kredit untuk Andi.'',
       LOGGER_info ''saw paid'',
       LOGGER_info ''Checkout Sukses. Status pesanan: PAID.'']
   \<and> sent_orders (trace (run_checkout
      \<lparr>payment_processor = CreditCardProcessor_process,
       notifier = (\<lambda>x. (x, [LOGGER_info (''saw '' @ status x)]))\<rparr> andi_order))
    = [\<lparr>customer_name = ''Andi'', total_price = 500000, status = ''paid''\<rparr>]"
proof -
  let ?seen = "\<lambda>x. (x, [LOGGER_info (''saw '' @ status x)])"
  let ?paid = "\<lambda>x::Order. (x, [LOGGER_info ''saw paid''])"
  let ?S = "\<lparr>payment_processor = CreditCardProcessor_process, notifier = ?seen\<rparr>"
  have str: "str_int 500000 = ''500000''"
    by (simp add: str_int_def)
  have ok: "fst (payment_processor ?S andi_order)"
    by (simp add: CreditCardProcessor_process_def)
  have agree: "\<forall>x. status x = ''paid'' \<longrightarrow> ?paid x = notifier ?S x"
    by simp
  note all = send_only_on_paid_order [of ?S andi_order ?paid]
  from all [THEN conjunct2, THEN conjunct2, THEN mp, OF agree]
  have same: "run_checkout \<lparr>payment_processor = CreditCardProcessor_process, notifier = ?paid\<rparr>
      andi_order = run_checkout ?S andi_order"
    by simp
  from all [THEN conjunct2, THEN conjunct1, rule_format, OF ok]
  have sent: "sent_orders (trace (run_checkout ?S andi_order))
      = [\<lparr>customer_name = ''Andi'', total_price = 500000, status = ''paid''\<rparr>]"
    by (simp add: Let_def CreditCardProcessor_process_def andi_order_def Order_init_def)
  have logs: "logged (trace (run_checkout ?S andi_order))
      = [LOGGER_info ''Memulai checkout untuk Andi. Total: 500000'',
         LOGGER_info ''Payment: Memproses Kartu Kredit untuk Andi.'',
         LOGGER_info ''saw paid'',
         LOGGER_info ''Checkout Sukses. Status pesanan: PAID.'']"
    by (simp add: logged_run_checkout CreditCardProcessor_process_def andi_order_def
        Order_init_def str)
  from same sent logs show ?thesis
    by simp
qed

subsection \<open>Swapping the payment processor\<close>

text \<open>
  C5. For any two orders with equal field values, \<^verbatim>\<open>run_checkout\<close> with
  \<^verbatim>\<open>CreditCardProcessor\<close> injected and with \<^verbatim>\<open>QrisProcessor\<close> injected (and the same
  notifier, whichever it is) behaves the same: the same return value and the same final
  status of the order.
\<close>

theorem same_behaviour_credit_card_qris:
  assumes "customer_name a = customer_name b"
    and "total_price a = total_price b"
    and "status a = status b"
  shows "returned (run_checkout \<lparr>payment_processor = CreditCardProcessor_process, notifier = n\<rparr> a)
       = returned (run_checkout \<lparr>payment_processor = QrisProcessor_process, notifier = n\<rparr> b)
     \<and> status (order_after
          (run_checkout \<lparr>payment_processor = CreditCardProcessor_process, notifier = n\<rparr> a))
       = status (order_after
          (run_checkout \<lparr>payment_processor = QrisProcessor_process, notifier = n\<rparr> b))"
proof -
  from assms have "a = b" by simp
  then show ?thesis
    by (simp add: returned_run_checkout order_after_run_checkout
        CreditCardProcessor_process_def QrisProcessor_process_def)
qed

theorem same_behaviour_credit_card_qris_witness:
  "returned (run_checkout checkout_cc andi_order) = returned (run_checkout checkout_qris andi_order)
   \<and> status (order_after (run_checkout checkout_cc andi_order))
       = status (order_after (run_checkout checkout_qris andi_order))"
  using same_behaviour_credit_card_qris [of andi_order andi_order EmailNotifier_send]
  by (simp add: checkout_cc_def checkout_qris_def)

subsection \<open>The status of an order\<close>

text \<open>
  C6. Every order is constructed with status \<^verbatim>\<open>pending\<close>; the coordinator assigns no
  status other than \<^verbatim>\<open>paid\<close>, and the script's processors and notifier assign none;
  so the status of every reachable order is \<^verbatim>\<open>pending\<close> or \<^verbatim>\<open>paid\<close>, and a checkout
  that changes the status of a reachable order takes it from \<^verbatim>\<open>pending\<close> to
  \<^verbatim>\<open>paid\<close>, with the payment having succeeded.
\<close>

theorem status_pending_or_paid:
  "status (Order_init cn tp) = ''pending''
   \<and> (\<forall>s \<in> set (status_writes (trace (run_checkout self x))). s = ''paid'')
   \<and> process_keeps_status CreditCardProcessor_process
   \<and> process_keeps_status QrisProcessor_process
   \<and> send_keeps_status EmailNotifier_send
   \<and> (reachable x \<longrightarrow> status x = ''pending'' \<or> status x = ''paid'')
   \<and> (reachable x \<and> process_keeps_status (payment_processor self)
        \<and> send_keeps_status (notifier self)
        \<and> status (order_after (run_checkout self x)) \<noteq> status x
      \<longrightarrow> status x = ''pending'' \<and> status (order_after (run_checkout self x)) = ''paid''
          \<and> returned (run_checkout self x))"
proof -
  have init: "status (Order_init cn tp) = ''pending''"
    by (simp add: Order_init_def)
  have writes: "\<forall>s \<in> set (status_writes (trace (run_checkout self x))). s = ''paid''"
    by (simp add: status_writes_run_checkout)
  have inv: "reachable x \<longrightarrow> status x = ''pending'' \<or> status x = ''paid''"
    using reachable_status by blast
  have step: "status x = ''pending'' \<and> status (order_after (run_checkout self x)) = ''paid''
          \<and> returned (run_checkout self x)"
    if r: "reachable x" and p: "process_keeps_status (payment_processor self)"
      and n: "send_keeps_status (notifier self)"
      and ch: "status (order_after (run_checkout self x)) \<noteq> status x"
  proof -
    from ch status_after_run_checkout [OF p n, of x]
    have ok: "fst (payment_processor self x)"
      and paid: "status (order_after (run_checkout self x)) = ''paid''"
      by (auto split: if_splits)
    from ch paid reachable_status [OF r] have "status x = ''pending''" by auto
    with ok paid show ?thesis by (simp add: returned_run_checkout)
  qed
  from init writes inv step CreditCardProcessor_keeps_status QrisProcessor_keeps_status
    EmailNotifier_keeps_status
  show ?thesis by blast
qed

theorem status_pending_or_paid_witness:
  "status (Order_init ''Andi'' 500000) = ''pending''
   \<and> reachable andi_order
   \<and> status (order_after (run_checkout checkout_cc andi_order)) \<noteq> status andi_order
   \<and> status andi_order = ''pending''
   \<and> status (order_after (run_checkout checkout_cc andi_order)) = ''paid''
   \<and> returned (run_checkout checkout_cc andi_order)
   \<and> status_writes (trace (run_checkout checkout_cc andi_order)) = [''paid'']"
proof -
  have r: "reachable andi_order"
    unfolding andi_order_def by (rule reachable.constructed)
  have p: "process_keeps_status (payment_processor checkout_cc)"
    by (simp add: checkout_cc_def CreditCardProcessor_keeps_status)
  have n: "send_keeps_status (notifier checkout_cc)"
    by (simp add: checkout_cc_def EmailNotifier_keeps_status)
  have ch: "status (order_after (run_checkout checkout_cc andi_order)) \<noteq> status andi_order"
    by (simp add: order_after_run_checkout checkout_cc_def CreditCardProcessor_process_def
        EmailNotifier_send_def andi_order_def Order_init_def)
  have w: "status_writes (trace (run_checkout checkout_cc andi_order)) = [''paid'']"
    by (simp add: status_writes_run_checkout checkout_cc_def CreditCardProcessor_process_def)
  from status_pending_or_paid [of "''Andi''" 500000 checkout_cc andi_order] r p n ch w
  show ?thesis by simp
qed

subsection \<open>Writes of the coordinator\<close>

text \<open>
  C7, as stated, fails: with a processor that returns false, the coordinator does not
  write the order at all (no assignment in the trace, and the order after the call is the
  order before it), so it is not mutated exactly once whatever the processor returns.
\<close>

theorem coordinator_writes_counterexample:
  "length (status_writes (trace (run_checkout
      \<lparr>payment_processor = (\<lambda>x. (False, x, [])), notifier = EmailNotifier_send\<rparr>
      budi_order))) \<noteq> 1
   \<and> order_after (run_checkout
      \<lparr>payment_processor = (\<lambda>x. (False, x, [])), notifier = EmailNotifier_send\<rparr>
      budi_order) = budi_order"
  by (simp add: status_writes_run_checkout order_after_run_checkout)

text \<open>
  C7, amended. During a call of \<^verbatim>\<open>run_checkout(order)\<close> the coordinator mutates the
  order exactly once, assigning \<^verbatim>\<open>paid\<close> to its status and nothing else, if
  \<^verbatim>\<open>process(order)\<close> returns true: the order handed to \<^verbatim>\<open>send\<close> is the order as
  \<^verbatim>\<open>process\<close> left it with that one field set, and the order after the call is the
  order as \<^verbatim>\<open>send\<close> left it. If \<^verbatim>\<open>process(order)\<close> returns false the coordinator does
  not mutate the order: the order after the call is the order as \<^verbatim>\<open>process\<close> left it.
  With collaborators that do not write the order, the order after the call is the order
  before it, with the status set to \<^verbatim>\<open>paid\<close> in the first case.
\<close>

theorem coordinator_writes_once_on_success:
  "status_writes (trace (run_checkout self order)) =
     (if fst (payment_processor self order) then [''paid''] else [])
   \<and> sent_orders (trace (run_checkout self order)) =
     (if fst (payment_processor self order)
      then [fst (snd (payment_processor self order))\<lparr>status := ''paid''\<rparr>] else [])
   \<and> order_after (run_checkout self order) =
     (if fst (payment_processor self order)
      then fst (notifier self (fst (snd (payment_processor self order))\<lparr>status := ''paid''\<rparr>))
      else fst (snd (payment_processor self order)))
   \<and> (fst (snd (payment_processor self order)) = order \<and> (\<forall>x. fst (notifier self x) = x) \<longrightarrow>
        order_after (run_checkout self order) =
          (if fst (payment_processor self order) then order\<lparr>status := ''paid''\<rparr> else order))"
  by (simp add: status_writes_run_checkout sent_orders_run_checkout order_after_run_checkout)

theorem coordinator_writes_once_on_success_witness:
  "status_writes (trace (run_checkout checkout_qris budi_order)) = [''paid'']
   \<and> order_after (run_checkout checkout_qris budi_order)
      = \<lparr>customer_name = ''Budi'', total_price = 100000, status = ''paid''\<rparr>
   \<and> \<not> fst ((\<lambda>x. (False, x, [])) budi_order)
   \<and> status_writes (trace (run_checkout
        \<lparr>payment_processor = (\<lambda>x. (False, x, [])), notifier = EmailNotifier_send\<rparr>
        budi_order)) = []
   \<and> order_after (run_checkout
        \<lparr>payment_processor = (\<lambda>x. (False, x, [])), notifier = EmailNotifier_send\<rparr>
        budi_order) = \<lparr>customer_name = ''Budi'', total_price = 100000, status = ''pending''\<rparr>"
proof -
  let ?F = "\<lparr>payment_processor = (\<lambda>x. (False, x, [])), notifier = EmailNotifier_send\<rparr>"
  have p: "fst (snd (payment_processor checkout_qris budi_order)) = budi_order"
    by (simp add: checkout_qris_def QrisProcessor_process_def)
  have n: "\<forall>x. fst (notifier checkout_qris x) = x"
    by (simp add: checkout_qris_def EmailNotifier_send_def)
  have p': "fst (snd (payment_processor ?F budi_order)) = budi_order"
    by simp
  have n': "\<forall>x. fst (notifier ?F x) = x"
    by (simp add: EmailNotifier_send_def)
  from coordinator_writes_once_on_success [of checkout_qris budi_order] p n
    coordinator_writes_once_on_success [of ?F budi_order] p' n'
  show ?thesis
    by (simp add: checkout_qris_def QrisProcessor_process_def budi_order_def Order_init_def)
qed

subsection \<open>What the result depends on\<close>

text \<open>
  C10, as stated, fails: the coordinator hands the whole order to \<^verbatim>\<open>process\<close>, so a fixed
  processor may decide by the price. With one that accepts exactly the orders whose
  \<^verbatim>\<open>total_price\<close> is not negative, two orders that differ in \<^verbatim>\<open>total_price\<close> only get
  different return values and different final statuses.
\<close>

theorem result_varies_with_price_counterexample:
  "status (Order_init ''Andi'' 500000) = status (Order_init ''Andi'' (- 1))
   \<and> customer_name (Order_init ''Andi'' 500000) = customer_name (Order_init ''Andi'' (- 1))
   \<and> returned (run_checkout
        \<lparr>payment_processor = (\<lambda>x. (0 \<le> total_price x, x, [])), notifier = EmailNotifier_send\<rparr>
        (Order_init ''Andi'' 500000))
     \<noteq> returned (run_checkout
        \<lparr>payment_processor = (\<lambda>x. (0 \<le> total_price x, x, [])), notifier = EmailNotifier_send\<rparr>
        (Order_init ''Andi'' (- 1)))
   \<and> status (order_after (run_checkout
        \<lparr>payment_processor = (\<lambda>x. (0 \<le> total_price x, x, [])), notifier = EmailNotifier_send\<rparr>
        (Order_init ''Andi'' 500000)))
     \<noteq> status (order_after (run_checkout
        \<lparr>payment_processor = (\<lambda>x. (0 \<le> total_price x, x, [])), notifier = EmailNotifier_send\<rparr>
        (Order_init ''Andi'' (- 1))))"
  by (simp add: returned_run_checkout order_after_run_checkout Order_init_def
      EmailNotifier_send_def)

text \<open>
  C10, amended. For a payment processor and a notifier that leave the status of the order
  to the coordinator, the return value of \<^verbatim>\<open>run_checkout(order)\<close> is the boolean that
  \<^verbatim>\<open>process(order)\<close> returned, and the final status is \<^verbatim>\<open>paid\<close> if it is true and the
  status before the call otherwise: two runs on orders of the same status for which
  \<^verbatim>\<open>process\<close> returns the same boolean yield the same return value and the same final
  status, whatever \<^verbatim>\<open>customer_name\<close> and \<^verbatim>\<open>total_price\<close> are (a negative price
  included: the coordinator validates nothing).
\<close>

theorem result_depends_on_flag_only:
  assumes "status a = status b"
    and "fst (payment_processor self a) = fst (payment_processor self b)"
    and "process_keeps_status (payment_processor self)"
    and "send_keeps_status (notifier self)"
  shows "returned (run_checkout self a) = returned (run_checkout self b)
     \<and> status (order_after (run_checkout self a)) = status (order_after (run_checkout self b))
     \<and> returned (run_checkout self a) = fst (payment_processor self a)
     \<and> status (order_after (run_checkout self a)) =
         (if fst (payment_processor self a) then ''paid'' else status a)"
  using assms by (simp add: returned_run_checkout status_after_run_checkout)

theorem result_depends_on_flag_only_witness:
  "status andi_order = status (Order_init ''Budi'' (- 7))
   \<and> fst (payment_processor checkout_qris andi_order)
       = fst (payment_processor checkout_qris (Order_init ''Budi'' (- 7)))
   \<and> process_keeps_status (payment_processor checkout_qris)
   \<and> send_keeps_status (notifier checkout_qris)
   \<and> returned (run_checkout checkout_qris andi_order)
       = returned (run_checkout checkout_qris (Order_init ''Budi'' (- 7)))
   \<and> status (order_after (run_checkout checkout_qris andi_order))
       = status (order_after (run_checkout checkout_qris (Order_init ''Budi'' (- 7))))"
proof -
  have s: "status andi_order = status (Order_init ''Budi'' (- 7))"
    by (simp add: andi_order_def Order_init_def)
  have f: "fst (payment_processor checkout_qris andi_order)
       = fst (payment_processor checkout_qris (Order_init ''Budi'' (- 7)))"
    by (simp add: checkout_qris_def QrisProcessor_process_def)
  have p: "process_keeps_status (payment_processor checkout_qris)"
    by (simp add: checkout_qris_def QrisProcessor_keeps_status)
  have n: "send_keeps_status (notifier checkout_qris)"
    by (simp add: checkout_qris_def EmailNotifier_keeps_status)
  from result_depends_on_flag_only [OF s f p n] s f p n show ?thesis by simp
qed

text \<open>
  Neither frame condition can be dropped: a notifier, or a declining processor, that
  copies the customer's name into the status makes the final status follow the name,
  although \<^verbatim>\<open>process\<close> returns the same boolean for both orders.
\<close>

lemma status_writing_collaborators:
  "status andi_order = status budi_order
   \<and> status (order_after (run_checkout
        \<lparr>payment_processor = CreditCardProcessor_process,
         notifier = (\<lambda>x. (x\<lparr>status := customer_name x\<rparr>, []))\<rparr> andi_order))
     \<noteq> status (order_after (run_checkout
        \<lparr>payment_processor = CreditCardProcessor_process,
         notifier = (\<lambda>x. (x\<lparr>status := customer_name x\<rparr>, []))\<rparr> budi_order))
   \<and> status (order_after (run_checkout
        \<lparr>payment_processor = (\<lambda>x. (False, x\<lparr>status := customer_name x\<rparr>, [])),
         notifier = EmailNotifier_send\<rparr> andi_order))
     \<noteq> status (order_after (run_checkout
        \<lparr>payment_processor = (\<lambda>x. (False, x\<lparr>status := customer_name x\<rparr>, [])),
         notifier = EmailNotifier_send\<rparr> budi_order))"
  by (simp add: order_after_run_checkout CreditCardProcessor_process_def andi_order_def
      budi_order_def Order_init_def)

end
